theory Spec2Isabelle
  imports Main "HOL-Library.Word"
begin

unbundle bit_operations_syntax

section \<open>Configuration document\<close>

text \<open>
  The configuration is the \<^verbatim>\<open>rspec.Spec\<close> value decoded from \<^verbatim>\<open>config.json\<close>. Only the
  fields the checks read are kept. A Go pointer that the code tests against \<^verbatim>\<open>nil\<close>
  (\<^verbatim>\<open>spec.Linux\<close>, \<^verbatim>\<open>spec.Process\<close>, \<^verbatim>\<open>spec.Process.Capabilities\<close>,
  \<^verbatim>\<open>spec.Process.OOMScoreAdj\<close>, the optional fields of a device) is an \<open>option\<close>.
  Go strings are byte strings: \<open>string\<close>. \<^verbatim>\<open>uint32\<close> and \<^verbatim>\<open>uint64\<close> are words; an
  \<^verbatim>\<open>int64\<close> is kept as its 64-bit pattern. A Go map is the list of its entries.
\<close>

record user =
  UID :: "32 word"
  GID :: "32 word"
  AdditionalGids :: "32 word list"

record capabilities =
  Bounding :: "string list"
  Effective :: "string list"
  Inheritable :: "string list"
  Permitted :: "string list"
  Ambient :: "string list"

record rlimit =
  rl_Type :: string
  Hard :: "64 word"
  Soft :: "64 word"

record process =
  Terminal :: bool
  User :: user
  Args :: "string list"
  Env :: "string list"
  Cwd :: string
  Capabilities :: "capabilities option"
  Rlimits :: "rlimit list"
  NoNewPrivileges :: bool
  OOMScoreAdj :: "int option"

record root =
  root_Path :: string
  Readonly :: bool

record mount =
  Destination :: string
  mnt_Type :: string
  mnt_Source :: string
  Options :: "string list"

record idmapping =
  HostID :: "32 word"
  ContainerID :: "32 word"
  Size :: "32 word"

record device =
  dev_Path :: string
  dev_Type :: string
  Major :: "64 word"
  Minor :: "64 word"
  FileMode :: "32 word option"
  dev_UID :: "32 word option"
  dev_GID :: "32 word option"

record linux =
  UIDMappings :: "idmapping list"
  GIDMappings :: "idmapping list"
  Sysctl :: "(string \<times> string) list"
  Devices :: "device list"
  MaskedPaths :: "string list"
  ReadonlyPaths :: "string list"

record spec =
  Version :: string
  Process :: "process option"
  Root :: root
  Hostname :: string
  Mounts :: "mount list"
  Linux :: "linux option"

section \<open>Errors, panics and results\<close>

text \<open>
  An error built by \<^verbatim>\<open>fmt.Errorf\<close> is kept as its format string and its arguments.
  \<open>SysError\<close> is an error handed back by the operating system or a library,
  \<open>Errno\<close> a raw \<^verbatim>\<open>syscall.Errno\<close> and \<open>Rfc2119Error\<close> a \<^verbatim>\<open>*rfc2119.Error\<close> with its
  \<^verbatim>\<open>Level\<close>. The type \<^verbatim>\<open>rfc2119.Level\<close> is declared outside the files at hand; the
  code only compares levels with \<^verbatim>\<open><\<close>, so a level is an integer here.
\<close>

type_synonym level = int

datatype error =
    Errorf string "fmtarg list"
  | SysError string
  | Errno nat
  | Rfc2119Error level string
and fmtarg =
    AStr string
  | AInt int
  | AInts "int list"
  | AErr error
  | AMount mount

text \<open>
  A Go function either returns or panics; a panic unwinds through every caller here,
  since nothing in the program recovers.
\<close>

datatype panic = IndexOutOfRange | NilDereference

datatype 'a res = Panic panic | Ret 'a

section \<open>Library functions on strings and paths\<close>

text \<open>\<^verbatim>\<open>strings.Split(s, sep)\<close> for a one-byte separator: every separator splits.\<close>

fun strings_Split :: "string \<Rightarrow> char \<Rightarrow> string list" where
  "strings_Split [] sep = [[]]"
| "strings_Split (c # cs) sep =
     (if c = sep then [] # strings_Split cs sep
      else (case strings_Split cs sep of
              [] \<Rightarrow> [[c]]
            | p # ps \<Rightarrow> (c # p) # ps))"

text \<open>
  \<^verbatim>\<open>filepath.Clean\<close> on a Unix path, by components: empty and \<^verbatim>\<open>.\<close> components go,
  \<^verbatim>\<open>..\<close> removes the component before it (at the root it is dropped, at the start of a
  relative path it stays); the empty result is \<^verbatim>\<open>.\<close>.
\<close>

fun clean_comps :: "bool \<Rightarrow> string list \<Rightarrow> string list \<Rightarrow> string list" where
  "clean_comps rooted [] acc = rev acc"
| "clean_comps rooted (c # cs) acc =
     (if c = [] \<or> c = ''.'' then clean_comps rooted cs acc
      else if c = ''..'' then
        (case acc of
           [] \<Rightarrow> if rooted then clean_comps rooted cs [] else clean_comps rooted cs [''..'']
         | a # as \<Rightarrow> if a = ''..'' then clean_comps rooted cs (''..'' # acc)
                    else clean_comps rooted cs as)
      else clean_comps rooted cs (c # acc))"

fun join_with :: "string \<Rightarrow> string list \<Rightarrow> string" where
  "join_with sep [] = []"
| "join_with sep [x] = x"
| "join_with sep (x # y # ys) = x @ sep @ join_with sep (y # ys)"

definition filepath_Clean :: "string \<Rightarrow> string" where
  "filepath_Clean path =
     (let rooted = (case path of [] \<Rightarrow> False | c # _ \<Rightarrow> c = CHR ''/'');
          out = (if rooted then ''/'' else []) @
                join_with ''/'' (clean_comps rooted (strings_Split path (CHR ''/'')) [])
      in if out = [] then ''.'' else out)"

text \<open>\<^verbatim>\<open>filepath.Join\<close>: empty elements are ignored, the rest joined and cleaned.\<close>

definition filepath_Join :: "string list \<Rightarrow> string" where
  "filepath_Join elems =
     (let es = filter (\<lambda>e. e \<noteq> []) elems
      in if es = [] then [] else filepath_Clean (join_with ''/'' es))"

text \<open>\<^verbatim>\<open>filepath.ToSlash\<close> changes nothing where the separator is the slash.\<close>

definition filepath_ToSlash :: "string \<Rightarrow> string" where
  "filepath_ToSlash p = p"

section \<open>The live mount table\<close>

record mountinfo =
  Mountpoint :: string
  Fstype :: string
  Source :: string

section \<open>Mount order\<close>

text \<open>
  \<^verbatim>\<open>isParent\<close> walks the parts of \<^verbatim>\<open>parent\<close> and reads \<^verbatim>\<open>cparts[i]\<close> at the same
  index; the read is out of range when the child has fewer parts and all of them match.
\<close>

fun isParent_loop :: "string list \<Rightarrow> nat \<Rightarrow> string list \<Rightarrow> bool res" where
  "isParent_loop cparts i [] = Ret True"
| "isParent_loop cparts i (part # rest) =
     (if i < length cparts then
        (if cparts ! i \<noteq> part then Ret False else isParent_loop cparts (Suc i) rest)
      else Panic IndexOutOfRange)"

definition isParent :: "string \<Rightarrow> string \<Rightarrow> bool res" where
  "isParent parent child =
     (if parent = child then Ret False
      else isParent_loop (strings_Split (filepath_ToSlash child) (CHR ''/'')) 0
             (strings_Split (filepath_ToSlash parent) (CHR ''/'')))"

text \<open>The first loop of \<^verbatim>\<open>isMountPoint\<close>: the index of the last record at \<open>path\<close>, or -1.\<close>

fun pathindex_loop :: "string \<Rightarrow> mountinfo list \<Rightarrow> nat \<Rightarrow> int \<Rightarrow> int" where
  "pathindex_loop path [] idx pathindex = pathindex"
| "pathindex_loop path (mi # mis) idx pathindex =
     pathindex_loop path mis (Suc idx) (if Mountpoint mi = path then int idx else pathindex)"

text \<open>The second loop, over \<^verbatim>\<open>mounts[pathindex+1:]\<close>, carrying \<^verbatim>\<open>hasParent\<close>.\<close>

fun hasParent_loop :: "string \<Rightarrow> string list \<Rightarrow> bool \<Rightarrow> bool res" where
  "hasParent_loop path [] hasParent = Ret hasParent"
| "hasParent_loop path (other # rest) hasParent =
     (if other = path then hasParent_loop path rest False
      else (case isParent other path of
              Panic p \<Rightarrow> Panic p
            | Ret b \<Rightarrow> hasParent_loop path rest (if b then True else hasParent)))"

definition isMountPoint :: "string \<Rightarrow> mountinfo list \<Rightarrow> (bool \<times> error option) res" where
  "isMountPoint path mountinfos =
     (let pathindex = pathindex_loop path mountinfos 0 (- 1);
          mounts = map Mountpoint mountinfos
      in if pathindex < 0 then Ret (False, None)
         else (case hasParent_loop path (drop (nat (pathindex + 1)) mounts) False of
                 Panic p \<Rightarrow> Panic p
               | Ret hasParent \<Rightarrow> Ret (\<not> hasParent, None)))"

fun findNestedPaths_inner :: "string \<Rightarrow> string list \<Rightarrow> string option res" where
  "findNestedPaths_inner parent [] = Ret None"
| "findNestedPaths_inner parent (child # rest) =
     (case isParent parent child of
        Panic p \<Rightarrow> Panic p
      | Ret b \<Rightarrow> if b then Ret (Some child) else findNestedPaths_inner parent rest)"

fun findNestedPaths_outer :: "string list \<Rightarrow> string list \<Rightarrow> (string \<times> string \<times> bool) res" where
  "findNestedPaths_outer paths [] = Ret ([], [], False)"
| "findNestedPaths_outer paths (parent # rest) =
     (case findNestedPaths_inner parent paths of
        Panic p \<Rightarrow> Panic p
      | Ret (Some child) \<Rightarrow> Ret (parent, child, True)
      | Ret None \<Rightarrow> findNestedPaths_outer paths rest)"

definition findNestedPaths :: "string list \<Rightarrow> (string \<times> string \<times> bool) res" where
  "findNestedPaths paths = findNestedPaths_outer paths paths"

text \<open>The loop of \<^verbatim>\<open>validateMountOrder\<close> that finds which of A and B is declared first.\<close>

fun first_of :: "string \<Rightarrow> string \<Rightarrow> string list \<Rightarrow> string" where
  "first_of A B [] = []"
| "first_of A B (m # ms) = (if A = m \<or> B = m then m else first_of A B ms)"

text \<open>
  \<^verbatim>\<open>validateMountOrder\<close> reads two things of the live system: \<^verbatim>\<open>runtime.GOOS\<close> and the
  pair returned by \<^verbatim>\<open>mount.GetMounts()\<close>.
\<close>

definition validateMountOrder ::
  "string \<Rightarrow> (mountinfo list \<times> error option) \<Rightarrow> spec \<Rightarrow> error option res" where
  "validateMountOrder goos getMounts spec =
     (if goos = ''windows'' then Ret None
      else
        let mounts = map (\<lambda>m. filepath_Clean (Destination m)) (Mounts spec);
            (mountinfos, err) = getMounts
        in (case err of
              Some e \<Rightarrow> Ret (Some e)
            | None \<Rightarrow>
               (case findNestedPaths mounts of
                  Panic p \<Rightarrow> Panic p
                | Ret (A, B, ok) \<Rightarrow>
                    if \<not> ok then Ret None
                    else
                      let first = first_of A B mounts
                      in (case isMountPoint A mountinfos of
                            Panic p \<Rightarrow> Panic p
                          | Ret (okA, Some e) \<Rightarrow>
                              Ret (Some (Errorf ''failed to get whether %q is a mountpoint: %q''
                                           [AStr A, AErr e]))
                          | Ret (okA, None) \<Rightarrow>
                              if \<not> okA then
                                Ret (Some (Errorf ''expected %q to be a mountpoint'' [AStr A]))
                              else
                                (case isMountPoint B mountinfos of
                                   Panic p \<Rightarrow> Panic p
                                 | Ret (okB, Some e) \<Rightarrow>
                                     Ret (Some (Errorf
                                        ''failed to get whether %q is a mountpoint: %q''
                                        [AStr A, AErr e]))
                                 | Ret (okB, None) \<Rightarrow>
                                     if first = A \<and> \<not> okB then
                                       Ret (Some (Errorf ''expected %q to be a mountpoint''
                                                    [AStr B]))
                                     else if first = B \<and> okB then
                                       Ret (Some (Errorf
                                          ''expected %q to not be a mountpoint'' [AStr B]))
                                     else Ret None)))))"

section \<open>More library functions\<close>

text \<open>
  White space is the ASCII white space (tab, line feed, vertical tab, form feed,
  carriage return, space); the files read here are ASCII.
\<close>

definition isSpace :: "char \<Rightarrow> bool" where
  "isSpace c = (c \<in> set [CHR 0x09, CHR 0x0A, CHR 0x0B, CHR 0x0C, CHR 0x0D, CHR '' ''])"

definition strings_TrimSpace :: "string \<Rightarrow> string" where
  "strings_TrimSpace s = rev (dropWhile isSpace (rev (dropWhile isSpace s)))"

text \<open>\<^verbatim>\<open>bytes.Trim(s, cutset)\<close>: leading and trailing bytes of the cutset go.\<close>

definition bytes_Trim :: "string \<Rightarrow> string \<Rightarrow> string" where
  "bytes_Trim s cutset =
     rev (dropWhile (\<lambda>c. c \<in> set cutset) (rev (dropWhile (\<lambda>c. c \<in> set cutset) s)))"

text \<open>\<^verbatim>\<open>strings.Fields\<close>: the maximal runs of bytes that are not white space.\<close>

fun Fields_loop :: "string \<Rightarrow> string \<Rightarrow> string list" where
  "Fields_loop [] cur = (if cur = [] then [] else [rev cur])"
| "Fields_loop (c # cs) cur =
     (if isSpace c then (if cur = [] then Fields_loop cs [] else rev cur # Fields_loop cs [])
      else Fields_loop cs (c # cur))"

definition strings_Fields :: "string \<Rightarrow> string list" where
  "strings_Fields s = Fields_loop s []"

text \<open>\<^verbatim>\<open>strings.Replace(s, old, new, -1)\<close> for one-byte \<^verbatim>\<open>old\<close> and \<^verbatim>\<open>new\<close>.\<close>

definition strings_Replace :: "string \<Rightarrow> char \<Rightarrow> char \<Rightarrow> string" where
  "strings_Replace s old new = map (\<lambda>c. if c = old then new else c) s"

text \<open>\<^verbatim>\<open>strings.ToUpper\<close> on ASCII letters (capability names are ASCII).\<close>

definition toUpper :: "char \<Rightarrow> char" where
  "toUpper c =
     (case map_of (zip ''abcdefghijklmnopqrstuvwxyz'' ''ABCDEFGHIJKLMNOPQRSTUVWXYZ'') c of
        None \<Rightarrow> c
      | Some u \<Rightarrow> u)"

definition strings_ToUpper :: "string \<Rightarrow> string" where
  "strings_ToUpper s = map toUpper s"

section \<open>The live system\<close>

text \<open>
  What \<^verbatim>\<open>os.Stat\<close> hands back: \<^verbatim>\<open>fi.Mode()\<close> and, when \<^verbatim>\<open>fi.Sys()\<close> is a
  \<^verbatim>\<open>*syscall.Stat_t\<close>, its fields.
\<close>

record stat_t =
  st_Mode :: "32 word"
  st_Rdev :: "64 word"
  st_Uid :: "32 word"
  st_Gid :: "32 word"

record fileinfo =
  fi_Mode :: "32 word"
  fi_Sys :: "stat_t option"

datatype CapType = EFFECTIVE | PERMITTED | INHERITABLE | BOUNDING | AMBIENT

datatype ErrorCode = DefaultFilesystems

text \<open>
  Code the checks call that is not among the files at hand is a parameter: the
  repository's own \<^verbatim>\<open>utils.LastCap\<close>, \<^verbatim>\<open>strToRlimit\<close>, \<^verbatim>\<open>rfc2119.ParseLevel\<close>,
  \<^verbatim>\<open>rfc2119.Must\<close> and \<^verbatim>\<open>validate.NewError\<close>, and of the libraries
  \<^verbatim>\<open>capability.List\<close>, \<^verbatim>\<open>Cap.String\<close>, \<^verbatim>\<open>logrus.ParseLevel\<close>, \<^verbatim>\<open>strconv.Atoi\<close>,
  \<^verbatim>\<open>strconv.ParseUint(s, 0, 32)\<close> and \<^verbatim>\<open>os.IsNotExist\<close>.
\<close>

record deps =
  LastCap :: int
  capability_List :: "int list"
  cap_String :: "int \<Rightarrow> string"
  strToRlimit :: "string \<Rightarrow> error + int"
  ParseLevel :: "string \<Rightarrow> error + level"
  Must :: level
  NewError :: "ErrorCode \<Rightarrow> string \<Rightarrow> string \<Rightarrow> error"
  logrus_ParseLevel :: "string \<Rightarrow> error + nat"
  strconv_Atoi :: "string \<Rightarrow> error + int"
  strconv_ParseUint :: "string \<Rightarrow> error + 32 word"
  os_IsNotExist :: "error \<Rightarrow> bool"

text \<open>
  The live system is what each call into the operating system answers. A call that
  returns \<^verbatim>\<open>(value, err)\<close> is a sum, \<open>Inl\<close> the error; \<^verbatim>\<open>mount.GetMounts\<close> is kept as
  the pair, since one caller goes on with the value when \<^verbatim>\<open>err\<close> is set.
  \<^item> \<open>open_scan p\<close>: \<^verbatim>\<open>os.Open(p)\<close> and then the tokens a \<^verbatim>\<open>bufio.Scanner\<close> delivers
    (\<^verbatim>\<open>s.Err()\<close> is nil whenever \<^verbatim>\<open>s.Scan()\<close> was true);
  \<^item> \<open>open_read1 p\<close>: \<^verbatim>\<open>os.Open(p)\<close> and then the error of a one-byte \<^verbatim>\<open>f.Read\<close>;
  \<^item> \<open>open_config p\<close> and \<open>json_Decode\<close>: \<^verbatim>\<open>os.Open\<close> of the document and the answer of
    the JSON decoder on it (\<open>None\<close>: the file left by a failed open);
  \<^item> \<open>create_err dir\<close>: the error, if any, of creating a new file in \<open>dir\<close>;
    \<open>nextRandom fs\<close>: the random part of the name \<^verbatim>\<open>ioutil.TempFile\<close> settles on when
    the probes have left the files \<open>fs\<close>.
\<close>

record world = deps +
  GOOS :: string
  os_Getwd :: "error + string"
  os_Getenv :: "string \<Rightarrow> string"
  os_Getuid :: int
  os_Getgid :: int
  os_Getgroups :: "error + int list"
  os_Hostname :: "error + string"
  ioutil_ReadFile :: "string \<Rightarrow> error + string"
  prctl_GetNoNewPrivs :: "nat \<times> nat"
  capability_NewPid :: "error + (CapType \<Rightarrow> int \<Rightarrow> bool)"
  syscall_Getrlimit :: "int \<Rightarrow> error + (64 word \<times> 64 word)"
  mount_GetMounts :: "mountinfo list \<times> error option"
  os_Stat :: "string \<Rightarrow> error + fileinfo"
  os_Lstat :: "string \<Rightarrow> error + fileinfo"
  os_Readlink :: "string \<Rightarrow> error + string"
  open_scan :: "string \<Rightarrow> error + string list"
  open_read1 :: "string \<Rightarrow> error + error option"
  open_config :: "string \<Rightarrow> error + string"
  json_Decode :: "string option \<Rightarrow> error + spec"
  create_err :: "string \<Rightarrow> error option"
  os_TempDir :: string
  nextRandom :: "string list \<Rightarrow> string"

text \<open>
  What a run changes: the package variable \<^verbatim>\<open>defaultDevices\<close>, and the files the
  write probes have created and not removed.
\<close>

record state =
  defaultDevices :: "string list"
  files :: "string list"

text \<open>
  Go visits the entries of a map in an order of its choosing; \<open>order m\<close> is the order
  chosen for the map with the entries \<open>m\<close>.
\<close>

type_synonym range_order = "(string \<times> string) list \<Rightarrow> (string \<times> string) list"

definition valid_order :: "range_order \<Rightarrow> bool" where
  "valid_order order = (\<forall>m. set (order m) = set m)"

definition io_EOF :: error where
  "io_EOF = SysError ''EOF''"

section \<open>Package variables and constants of runtimetest\<close>

definition specConfig :: string where
  "specConfig = ''config.json''"

definition defaultFS :: "(string \<times> string) list" where
  "defaultFS =
     [(''/proc'', ''proc''), (''/sys'', ''sysfs''), (''/dev/pts'', ''devpts''),
      (''/dev/shm'', ''tmpfs'')]"

definition defaultSymlinks :: "(string \<times> string) list" where
  "defaultSymlinks =
     [(''/dev/fd'', ''/proc/self/fd''), (''/dev/stdin'', ''/proc/self/fd/0''),
      (''/dev/stdout'', ''/proc/self/fd/1''), (''/dev/stderr'', ''/proc/self/fd/2'')]"

text \<open>The value \<^verbatim>\<open>defaultDevices\<close> has when the program starts.\<close>

definition defaultDevices_init :: "string list" where
  "defaultDevices_init =
     [''/dev/null'', ''/dev/zero'', ''/dev/full'', ''/dev/random'', ''/dev/urandom'',
      ''/dev/tty'', ''/dev/ptmx'']"

section \<open>The checks of runtimetest\<close>

subsection \<open>Process\<close>

text \<open>
  The environment loop of \<^verbatim>\<open>validateGeneralProcess\<close>. \<^verbatim>\<open>parts[1]\<close> is out of range for
  an entry with no \<^verbatim>\<open>=\<close>.
\<close>

fun env_loop :: "world \<Rightarrow> string list \<Rightarrow> error option res" where
  "env_loop w [] = Ret None"
| "env_loop w (env # rest) =
     (let parts = strings_Split env (CHR ''='')
      in if length parts < 2 then Panic IndexOutOfRange
         else
           let key = parts ! 0;
               expectedValue = parts ! 1;
               actualValue = os_Getenv w key
           in if actualValue \<noteq> expectedValue then
                Ret (Some (Errorf ''Env %v expected: %v, actual: %v''
                             [AStr key, AStr expectedValue, AStr actualValue]))
              else env_loop w rest)"

definition check_cwd :: "world \<Rightarrow> process \<Rightarrow> error option" where
  "check_cwd w p =
     (if Cwd p \<noteq> [] then
        (case os_Getwd w of
           Inl err \<Rightarrow> Some err
         | Inr cwd \<Rightarrow>
             if cwd \<noteq> Cwd p then
               Some (Errorf ''Cwd expected: %v, actual: %v'' [AStr (Cwd p), AStr cwd])
             else None)
      else None)"

definition validateGeneralProcess :: "world \<Rightarrow> spec \<Rightarrow> error option res" where
  "validateGeneralProcess w spec =
     (case Process spec of
        None \<Rightarrow> Panic NilDereference
      | Some p \<Rightarrow>
          (case check_cwd w p of
             Some err \<Rightarrow> Ret (Some err)
           | None \<Rightarrow> env_loop w (Env p)))"

text \<open>The argument loop of \<^verbatim>\<open>validateLinuxProcess\<close>; the lengths are equal when it runs.\<close>

fun args_loop :: "string list \<Rightarrow> nat \<Rightarrow> string list \<Rightarrow> error option res" where
  "args_loop specArgs i [] = Ret None"
| "args_loop specArgs i (a # rest) =
     (if i < length specArgs then
        (if a \<noteq> specArgs ! i then
           Ret (Some (Errorf ''Process arguments expected: %v, actual: %v''
                        [AStr a, AStr (specArgs ! i)]))
         else args_loop specArgs (Suc i) rest)
      else Panic IndexOutOfRange)"

text \<open>
  \<^verbatim>\<open>validateLinuxProcess\<close> calls \<^verbatim>\<open>validateGeneralProcess\<close> as a statement: what it
  returns is dropped, a panic of it is not.
\<close>

definition validateLinuxProcess :: "world \<Rightarrow> spec \<Rightarrow> error option res" where
  "validateLinuxProcess w spec =
     (case validateGeneralProcess w spec of
        Panic pn \<Rightarrow> Panic pn
      | Ret _ \<Rightarrow>
     (case Process spec of
        None \<Rightarrow> Panic NilDereference
      | Some p \<Rightarrow>
          let uid = os_Getuid w in
          if (word_of_int uid :: 32 word) \<noteq> UID (User p) then
            Ret (Some (Errorf ''UID expected: %v, actual: %v''
                         [AInt (uint (UID (User p))), AInt uid]))
          else
          let gid = os_Getgid w in
          if (word_of_int gid :: 32 word) \<noteq> GID (User p) then
            Ret (Some (Errorf ''GID expected: %v, actual: %v''
                         [AInt (uint (GID (User p))), AInt gid]))
          else
          (case os_Getgroups w of
             Inl err \<Rightarrow> Ret (Some err)
           | Inr groups \<Rightarrow>
               if list_ex (\<lambda>g. uint g \<notin> set groups) (AdditionalGids (User p)) then
                 Ret (Some (Errorf ''Groups expected: %v, actual (should be superset): %v''
                              [AInts (map uint (AdditionalGids (User p))), AInts groups]))
               else
               (case ioutil_ReadFile w ''/proc/self/cmdline'' of
                  Inl err \<Rightarrow> Ret (Some err)
                | Inr cmdlineBytes \<Rightarrow>
                    let args = strings_Split (bytes_Trim cmdlineBytes [CHR 0x00]) (CHR 0x00) in
                    if length args \<noteq> length (Args p) then
                      Ret (Some (Errorf ''Process arguments expected: %v, actual: %v''
                                   [AInt (int (length (Args p))), AInt (int (length args))]))
                    else
                    (case args_loop (Args p) 0 args of
                       Panic pn \<Rightarrow> Panic pn
                     | Ret (Some err) \<Rightarrow> Ret (Some err)
                     | Ret None \<Rightarrow>
                         let (ret, errno) = prctl_GetNoNewPrivs w in
                         if errno \<noteq> 0 then Ret (Some (Errno errno))
                         else if NoNewPrivileges p \<and> ret \<noteq> 1 then
                           Ret (Some (Errorf ''NoNewPrivileges expected: true, actual: false'' []))
                         else if \<not> NoNewPrivileges p \<and> ret \<noteq> 0 then
                           Ret (Some (Errorf ''NoNewPrivileges expected: false, actual: true'' []))
                         else Ret None)))))"

subsection \<open>Capabilities\<close>

text \<open>
  One of the five comparisons of the loop body: \<open>expected\<close> and \<open>unexpected\<close> are the two
  format strings of the set.
\<close>

definition cap_mismatch :: "string \<Rightarrow> string \<Rightarrow> bool \<Rightarrow> bool \<Rightarrow> string \<Rightarrow> error option" where
  "cap_mismatch expected unexpected expectedSet actuallySet name =
     (if expectedSet \<noteq> actuallySet then
        (if expectedSet then Some (Errorf expected [AStr name])
         else Some (Errorf unexpected [AStr name]))
      else None)"

definition capKey_of :: "world \<Rightarrow> int \<Rightarrow> string" where
  "capKey_of w cap = ''CAP_'' @ strings_ToUpper (cap_String w cap)"

text \<open>
  The body of the loop for one capability: bounding, effective, inheritable, permitted
  and ambient, in this order. \<open>ex\<close> gives the declared list of each set.
\<close>

definition caps_body ::
  "world \<Rightarrow> (CapType \<Rightarrow> string list) \<Rightarrow> (CapType \<Rightarrow> int \<Rightarrow> bool) \<Rightarrow> int \<Rightarrow> error option" where
  "caps_body w ex processCaps cap =
     (let capKey = capKey_of w cap in
      case cap_mismatch ''Expected bounding capability %v not set for process''
             ''Unexpected bounding capability %v set for process''
             (capKey \<in> set (ex BOUNDING)) (processCaps BOUNDING cap) (cap_String w cap) of
        Some err \<Rightarrow> Some err
      | None \<Rightarrow>
      (case cap_mismatch ''Expected effective capability %v not set for process''
             ''Unexpected effective capability %v set for process''
             (capKey \<in> set (ex EFFECTIVE)) (processCaps EFFECTIVE cap) (cap_String w cap) of
        Some err \<Rightarrow> Some err
      | None \<Rightarrow>
      (case cap_mismatch ''Expected inheritable capability %v not set for process''
             ''Unexpected inheritable capability %v set for process''
             (capKey \<in> set (ex INHERITABLE)) (processCaps INHERITABLE cap) (cap_String w cap) of
        Some err \<Rightarrow> Some err
      | None \<Rightarrow>
      (case cap_mismatch ''Expected permitted capability %v not set for process''
             ''Unexpected permitted capability %v set for process''
             (capKey \<in> set (ex PERMITTED)) (processCaps PERMITTED cap) (cap_String w cap) of
        Some err \<Rightarrow> Some err
      | None \<Rightarrow>
         cap_mismatch ''Expected ambient capability %v not set for process''
             ''Unexpected ambient capability %v set for process''
             (capKey \<in> set (ex AMBIENT)) (processCaps AMBIENT cap) (cap_String w cap)))))"

fun caps_loop ::
  "world \<Rightarrow> (CapType \<Rightarrow> string list) \<Rightarrow> (CapType \<Rightarrow> int \<Rightarrow> bool) \<Rightarrow> int list \<Rightarrow> error option" where
  "caps_loop w ex processCaps [] = None"
| "caps_loop w ex processCaps (cap # rest) =
     (if cap > LastCap w then caps_loop w ex processCaps rest
      else (case caps_body w ex processCaps cap of
              Some err \<Rightarrow> Some err
            | None \<Rightarrow> caps_loop w ex processCaps rest))"

text \<open>
  The five maps \<^verbatim>\<open>expectedCaps1\<close> to \<^verbatim>\<open>expectedCaps5\<close>: a name is a key of the map of a
  set exactly when the declared list of the set holds it; all are empty when
  \<^verbatim>\<open>spec.Process.Capabilities\<close> is nil.
\<close>

definition expectedCaps :: "capabilities option \<Rightarrow> CapType \<Rightarrow> string list" where
  "expectedCaps cs t =
     (case cs of
        None \<Rightarrow> []
      | Some c \<Rightarrow>
          (case t of
             BOUNDING \<Rightarrow> Bounding c
           | EFFECTIVE \<Rightarrow> Effective c
           | INHERITABLE \<Rightarrow> Inheritable c
           | PERMITTED \<Rightarrow> Permitted c
           | AMBIENT \<Rightarrow> Ambient c))"

definition validateCapabilities :: "world \<Rightarrow> spec \<Rightarrow> error option res" where
  "validateCapabilities w spec =
     (case capability_NewPid w of
        Inl err \<Rightarrow> Ret (Some err)
      | Inr processCaps \<Rightarrow>
          (case Process spec of
             None \<Rightarrow> Panic NilDereference
           | Some p \<Rightarrow>
               Ret (caps_loop w (expectedCaps (Capabilities p)) processCaps
                      (capability_List w))))"

subsection \<open>Hostname, resource limits, kernel parameters\<close>

definition validateHostname :: "world \<Rightarrow> spec \<Rightarrow> error option" where
  "validateHostname w spec =
     (case os_Hostname w of
        Inl err \<Rightarrow> Some err
      | Inr hostname \<Rightarrow>
          if Hostname spec \<noteq> [] \<and> hostname \<noteq> Hostname spec then
            Some (Errorf ''Hostname expected: %v, actual: %v''
                    [AStr (Hostname spec), AStr hostname])
          else None)"

fun rlimits_loop :: "world \<Rightarrow> rlimit list \<Rightarrow> error option" where
  "rlimits_loop w [] = None"
| "rlimits_loop w (r # rest) =
     (case strToRlimit w (rl_Type r) of
        Inl err \<Rightarrow> Some err
      | Inr rl \<Rightarrow>
          (case syscall_Getrlimit w rl of
             Inl err \<Rightarrow> Some err
           | Inr (cur, mx) \<Rightarrow>
               if cur \<noteq> Soft r then
                 Some (Errorf ''%v rlimit soft expected: %v, actual: %v''
                         [AStr (rl_Type r), AInt (uint (Soft r)), AInt (uint cur)])
               else if mx \<noteq> Hard r then
                 Some (Errorf ''%v rlimit hard expected: %v, actual: %v''
                         [AStr (rl_Type r), AInt (uint (Hard r)), AInt (uint mx)])
               else rlimits_loop w rest))"

definition validateRlimits :: "world \<Rightarrow> spec \<Rightarrow> error option res" where
  "validateRlimits w spec =
     (case Process spec of
        None \<Rightarrow> Panic NilDereference
      | Some p \<Rightarrow> Ret (rlimits_loop w (Rlimits p)))"

fun sysctls_loop :: "world \<Rightarrow> (string \<times> string) list \<Rightarrow> error option" where
  "sysctls_loop w [] = None"
| "sysctls_loop w ((k, v) # rest) =
     (let keyPath = filepath_Join [''/proc/sys'', strings_Replace k (CHR ''.'') (CHR ''/'')]
      in case ioutil_ReadFile w keyPath of
           Inl err \<Rightarrow> Some err
         | Inr vBytes \<Rightarrow>
             let val = strings_TrimSpace (bytes_Trim vBytes [CHR 0x00])
             in if val \<noteq> v then
                  Some (Errorf ''Sysctl %v value expected: %v, actual: %v''
                          [AStr k, AStr v, AStr val])
                else sysctls_loop w rest)"

definition validateSysctls :: "world \<Rightarrow> range_order \<Rightarrow> spec \<Rightarrow> error option" where
  "validateSysctls w order spec =
     (case Linux spec of
        None \<Rightarrow> None
      | Some l \<Rightarrow> sysctls_loop w (order (Sysctl l)))"

subsection \<open>Write probe and root filesystem\<close>

text \<open>
  \<^verbatim>\<open>ioutil.TempFile(dir, pattern)\<close> creates a file named by the pattern followed by a
  random string, in \<open>dir\<close> or, for the empty \<open>dir\<close>, in \<^verbatim>\<open>os.TempDir()\<close>; the \<^verbatim>\<open>Name()\<close>
  of the file it returns is the path of the file, directory included.
\<close>

definition ioutil_TempFile :: "world \<Rightarrow> string \<Rightarrow> string \<Rightarrow> state \<Rightarrow> (error + string) \<times> state" where
  "ioutil_TempFile w dir pattern st =
     (let d = (if dir = [] then os_TempDir w else dir)
      in case create_err w d of
           Some err \<Rightarrow> (Inl err, st)
         | None \<Rightarrow>
             let name = filepath_Join [d, pattern @ nextRandom w (files st)]
             in (Inr name, st\<lparr>files := name # files st\<rparr>))"

text \<open>\<^verbatim>\<open>os.RemoveAll(path)\<close> removes \<open>path\<close> and what is below it; a missing path is no error.\<close>

definition below_path :: "string \<Rightarrow> string \<Rightarrow> bool" where
  "below_path path f = (f = path \<or> take (length path + 1) f = path @ ''/'')"

definition os_RemoveAll :: "string \<Rightarrow> state \<Rightarrow> state" where
  "os_RemoveAll path st = st\<lparr>files := filter (\<lambda>f. \<not> below_path path f) (files st)\<rparr>"

definition testWriteAccess :: "world \<Rightarrow> string \<Rightarrow> state \<Rightarrow> error option \<times> state" where
  "testWriteAccess w path st =
     (case ioutil_TempFile w path ''Test'' st of
        (Inl err, st') \<Rightarrow> (Some err, st')
      | (Inr name, st') \<Rightarrow> (None, os_RemoveAll (filepath_Join [path, name]) st'))"

definition validateRootFS :: "world \<Rightarrow> spec \<Rightarrow> state \<Rightarrow> error option \<times> state" where
  "validateRootFS w spec st =
     (if Readonly (Root spec) then
        (case testWriteAccess w ''/'' st of
           (None, st') \<Rightarrow> (Some (Errorf ''Rootfs should be readonly'' []), st')
         | (Some err, st') \<Rightarrow> (None, st'))
      else (None, st))"

subsection \<open>Default filesystems, symlinks and devices\<close>

text \<open>A Go map from strings to strings; a missing key reads as the empty string.\<close>

definition map_get :: "(string \<Rightarrow> string option) \<Rightarrow> string \<Rightarrow> string" where
  "map_get m k = (case m k of None \<Rightarrow> [] | Some v \<Rightarrow> v)"

fun defaultFS_loop ::
  "world \<Rightarrow> spec \<Rightarrow> (string \<Rightarrow> string option) \<Rightarrow> (string \<times> string) list \<Rightarrow> error option" where
  "defaultFS_loop w spec mountsMap [] = None"
| "defaultFS_loop w spec mountsMap ((fs, fstype) # rest) =
     (if \<not> (map_get mountsMap fs = fstype) then
        Some (NewError w DefaultFilesystems
                (fs @ '' SHOULD exist and expected type is '' @ fstype) (Version spec))
      else defaultFS_loop w spec mountsMap rest)"

text \<open>
  When \<^verbatim>\<open>mount.GetMounts\<close> fails, \<^verbatim>\<open>validateDefaultFS\<close> builds an error and drops it,
  and goes on with the list it was handed.
\<close>

definition validateDefaultFS :: "world \<Rightarrow> range_order \<Rightarrow> spec \<Rightarrow> error option" where
  "validateDefaultFS w order spec =
     (let (mountInfos, err) = mount_GetMounts w;
          mountsMap = fold (\<lambda>mountInfo m. m(Mountpoint mountInfo \<mapsto> Fstype mountInfo))
                        mountInfos Map.empty
      in defaultFS_loop w spec mountsMap (order defaultFS))"

definition os_ModeSymlink :: "32 word" where
  "os_ModeSymlink = push_bit 27 1"

definition os_ModeDevice :: "32 word" where
  "os_ModeDevice = push_bit 26 1"

definition os_ModePerm :: "32 word" where
  "os_ModePerm = 0x1FF"

fun defaultSymlinks_loop :: "world \<Rightarrow> (string \<times> string) list \<Rightarrow> error option" where
  "defaultSymlinks_loop w [] = None"
| "defaultSymlinks_loop w ((symlink, dest) # rest) =
     (case os_Lstat w symlink of
        Inl err \<Rightarrow> Some err
      | Inr fi \<Rightarrow>
          if fi_Mode fi AND os_ModeSymlink \<noteq> os_ModeSymlink then
            Some (Errorf ''%v is not a symbolic link as expected'' [AStr symlink])
          else
            (case os_Readlink w symlink of
               Inl err \<Rightarrow> Some err
             | Inr realDest \<Rightarrow>
                 if realDest \<noteq> dest then
                   Some (Errorf ''link destation of %v expected is %v, actual is %v''
                           [AStr symlink, AStr dest, AStr realDest])
                 else defaultSymlinks_loop w rest))"

definition validateDefaultSymlinks :: "world \<Rightarrow> range_order \<Rightarrow> spec \<Rightarrow> error option" where
  "validateDefaultSymlinks w order spec = defaultSymlinks_loop w (order defaultSymlinks)"

fun defaultDevices_loop :: "world \<Rightarrow> string list \<Rightarrow> error option" where
  "defaultDevices_loop w [] = None"
| "defaultDevices_loop w (device # rest) =
     (case os_Stat w device of
        Inl err \<Rightarrow>
          if os_IsNotExist w err then Some (Errorf ''device node %v not found'' [AStr device])
          else Some err
      | Inr fi \<Rightarrow>
          if fi_Mode fi AND os_ModeDevice \<noteq> os_ModeDevice then
            Some (Errorf ''file %v is not a device as expected'' [AStr device])
          else defaultDevices_loop w rest)"

text \<open>
  \<^verbatim>\<open>validateDefaultDevices\<close> appends to the package variable itself when a terminal is
  asked for, and walks the variable.
\<close>

definition validateDefaultDevices :: "world \<Rightarrow> spec \<Rightarrow> state \<Rightarrow> (error option \<times> state) res" where
  "validateDefaultDevices w spec st =
     (case Process spec of
        None \<Rightarrow> Panic NilDereference
      | Some p \<Rightarrow>
          let st' = (if Terminal p
                     then st\<lparr>defaultDevices := defaultDevices st @ [''/dev/console'']\<rparr>
                     else st)
          in Ret (defaultDevices_loop w (defaultDevices st'), st'))"

subsection \<open>Declared devices\<close>

definition S_IFMT :: "32 word" where "S_IFMT = 0xF000"
definition S_IFCHR :: "32 word" where "S_IFCHR = 0x2000"
definition S_IFBLK :: "32 word" where "S_IFBLK = 0x6000"
definition S_IFIFO :: "32 word" where "S_IFIFO = 0x1000"

definition devType_of :: "32 word \<Rightarrow> string" where
  "devType_of mode =
     (let m = mode AND S_IFMT
      in if m = S_IFCHR then ''c''
         else if m = S_IFBLK then ''b''
         else if m = S_IFIFO then ''p''
         else ''unmatched'')"

definition dev_major :: "64 word \<Rightarrow> 64 word" where
  "dev_major dev = (drop_bit 8 dev) AND 0xfff"

definition dev_minor :: "64 word \<Rightarrow> 64 word" where
  "dev_minor dev = (dev AND 0xff) OR ((drop_bit 12 dev) AND 0xfff00)"

text \<open>The body of the loop of \<^verbatim>\<open>validateLinuxDevices\<close> for one declared device.\<close>

definition device_body :: "world \<Rightarrow> device \<Rightarrow> error option" where
  "device_body w device =
     (case os_Stat w (dev_Path device) of
        Inl err \<Rightarrow> Some err
      | Inr fi \<Rightarrow>
      (case fi_Sys fi of
        None \<Rightarrow> Some (Errorf ''cannot determine state for device %s'' [AStr (dev_Path device)])
      | Some fStat \<Rightarrow>
          let devType = devType_of (st_Mode fStat) in
          if devType \<noteq> dev_Type device \<or> (devType = ''c'' \<and> dev_Type device = ''u'') then
            Some (Errorf ''device %v expected type is %v, actual is %v''
                    [AStr (dev_Path device), AStr (dev_Type device), AStr devType])
          else if devType \<noteq> ''p'' \<and>
                  (dev_major (st_Rdev fStat) \<noteq> Major device \<or>
                   dev_minor (st_Rdev fStat) \<noteq> Minor device) then
            Some (Errorf ''%v device number expected is %v:%v, actual is %v:%v''
                    [AStr (dev_Path device), AInt (sint (Major device)),
                     AInt (sint (Minor device)), AInt (uint (dev_major (st_Rdev fStat))),
                     AInt (uint (dev_minor (st_Rdev fStat)))])
          else if (case FileMode device of
                     None \<Rightarrow> False
                   | Some fm \<Rightarrow> fm AND os_ModePerm \<noteq> fi_Mode fi AND os_ModePerm) then
            Some (Errorf ''%v filemode expected is %v, actual is %v''
                    [AStr (dev_Path device), AInt (uint (the (FileMode device) AND os_ModePerm)),
                     AInt (uint (fi_Mode fi AND os_ModePerm))])
          else if (case dev_UID device of None \<Rightarrow> False | Some u \<Rightarrow> u \<noteq> st_Uid fStat) then
            Some (Errorf ''%v uid expected is %v, actual is %v''
                    [AStr (dev_Path device), AInt (uint (the (dev_UID device))),
                     AInt (uint (st_Uid fStat))])
          else if (case dev_GID device of None \<Rightarrow> False | Some g \<Rightarrow> g \<noteq> st_Gid fStat) then
            Some (Errorf ''%v uid expected is %v, actual is %v''
                    [AStr (dev_Path device), AInt (uint (the (dev_GID device))),
                     AInt (uint (st_Gid fStat))])
          else None))"

fun devices_loop :: "world \<Rightarrow> device list \<Rightarrow> error option" where
  "devices_loop w [] = None"
| "devices_loop w (device # rest) =
     (case device_body w device of
        Some err \<Rightarrow> Some err
      | None \<Rightarrow> devices_loop w rest)"

definition validateLinuxDevices :: "world \<Rightarrow> spec \<Rightarrow> error option" where
  "validateLinuxDevices w spec =
     (case Linux spec of
        None \<Rightarrow> None
      | Some l \<Rightarrow> devices_loop w (Devices l))"

subsection \<open>Masked and read-only paths, OOM score\<close>

fun maskedPaths_loop :: "world \<Rightarrow> string list \<Rightarrow> error option" where
  "maskedPaths_loop w [] = None"
| "maskedPaths_loop w (maskedPath # rest) =
     (case open_read1 w maskedPath of
        Inl err \<Rightarrow> Some err
      | Inr err \<Rightarrow>
          if err \<noteq> Some io_EOF then
            Some (Errorf ''%v should not be readable'' [AStr maskedPath])
          else maskedPaths_loop w rest)"

definition validateMaskedPaths :: "world \<Rightarrow> spec \<Rightarrow> error option" where
  "validateMaskedPaths w spec =
     (case Linux spec of
        None \<Rightarrow> None
      | Some l \<Rightarrow> maskedPaths_loop w (MaskedPaths l))"

fun ROPaths_loop :: "world \<Rightarrow> string list \<Rightarrow> state \<Rightarrow> error option \<times> state" where
  "ROPaths_loop w [] st = (None, st)"
| "ROPaths_loop w (v # rest) st =
     (case testWriteAccess w v st of
        (None, st') \<Rightarrow> (Some (Errorf ''%v should be readonly'' [AStr v]), st')
      | (Some err, st') \<Rightarrow> ROPaths_loop w rest st')"

definition validateROPaths :: "world \<Rightarrow> spec \<Rightarrow> state \<Rightarrow> error option \<times> state" where
  "validateROPaths w spec st =
     (case Linux spec of
        None \<Rightarrow> (None, st)
      | Some l \<Rightarrow> ROPaths_loop w (ReadonlyPaths l) st)"

fun oom_loop :: "world \<Rightarrow> int \<Rightarrow> string list \<Rightarrow> error option" where
  "oom_loop w expected [] = None"
| "oom_loop w expected (line # rest) =
     (case strconv_Atoi w (strings_TrimSpace line) of
        Inl err \<Rightarrow> Some err
      | Inr actual \<Rightarrow>
          if actual \<noteq> expected then
            Some (Errorf ''oomScoreAdj expected: %v, actual: %v'' [AInt expected, AInt actual])
          else oom_loop w expected rest)"

definition validateOOMScoreAdj :: "world \<Rightarrow> spec \<Rightarrow> error option" where
  "validateOOMScoreAdj w spec =
     (case Process spec of
        None \<Rightarrow> None
      | Some p \<Rightarrow>
          (case OOMScoreAdj p of
             None \<Rightarrow> None
           | Some expected \<Rightarrow>
               (case open_scan w ''/proc/self/oom_score_adj'' of
                  Inl err \<Rightarrow> Some err
                | Inr lines \<Rightarrow> oom_loop w expected lines)))"

subsection \<open>ID mappings\<close>

text \<open>The scanner loop of \<^verbatim>\<open>getIDMappings\<close>, with \<^verbatim>\<open>idMaps\<close> as accumulator.\<close>

fun getIDMappings_loop ::
  "world \<Rightarrow> string \<Rightarrow> string list \<Rightarrow> idmapping list \<Rightarrow> error + idmapping list" where
  "getIDMappings_loop w path [] idMaps = Inr idMaps"
| "getIDMappings_loop w path (line # rest) idMaps =
     (let idMap = strings_Fields (strings_TrimSpace line)
      in if length idMap = 3 then
           (case strconv_ParseUint w (idMap ! 0) of
              Inl err \<Rightarrow> Inl err
            | Inr hostID \<Rightarrow>
            (case strconv_ParseUint w (idMap ! 1) of
              Inl err \<Rightarrow> Inl err
            | Inr containerID \<Rightarrow>
            (case strconv_ParseUint w (idMap ! 2) of
              Inl err \<Rightarrow> Inl err
            | Inr mapSize \<Rightarrow>
                getIDMappings_loop w path rest
                  (idMaps @ [\<lparr>HostID = hostID, ContainerID = containerID, Size = mapSize\<rparr>]))))
         else Inl (Errorf ''invalid format in %v'' [AStr path]))"

definition getIDMappings :: "world \<Rightarrow> string \<Rightarrow> error + idmapping list" where
  "getIDMappings w path =
     (case open_scan w path of
        Inl err \<Rightarrow> Inl err
      | Inr lines \<Rightarrow> getIDMappings_loop w path lines [])"

text \<open>The inner loop of \<^verbatim>\<open>validateIDMappings\<close>: \<^verbatim>\<open>exist\<close> after the walk over \<^verbatim>\<open>idMaps\<close>.\<close>

fun exist_loop :: "idmapping \<Rightarrow> idmapping list \<Rightarrow> bool" where
  "exist_loop v [] = False"
| "exist_loop v (cv # rest) =
     (if HostID v = HostID cv \<and> ContainerID v = ContainerID cv \<and> Size v = Size cv then True
      else exist_loop v rest)"

fun mappings_loop :: "string \<Rightarrow> idmapping list \<Rightarrow> idmapping list \<Rightarrow> error option" where
  "mappings_loop property idMaps [] = None"
| "mappings_loop property idMaps (v # rest) =
     (if \<not> exist_loop v idMaps then
        Some (Errorf ''%v is not applied as expected'' [AStr property])
      else mappings_loop property idMaps rest)"

definition validateIDMappings :: "world \<Rightarrow> idmapping list \<Rightarrow> string \<Rightarrow> string \<Rightarrow> error option" where
  "validateIDMappings w mappings path property =
     (case getIDMappings w path of
        Inl err \<Rightarrow> Some (Errorf ''can not get items: %v'' [AErr err])
      | Inr idMaps \<Rightarrow>
          if length mappings \<noteq> 0 \<and> length mappings \<noteq> length idMaps then
            Some (Errorf ''expected %d entries in %v, but acutal is %d''
                    [AInt (int (length mappings)), AStr path, AInt (int (length idMaps))])
          else mappings_loop property idMaps mappings)"

definition validateUIDMappings :: "world \<Rightarrow> spec \<Rightarrow> error option" where
  "validateUIDMappings w spec =
     (case Linux spec of
        None \<Rightarrow> None
      | Some l \<Rightarrow> validateIDMappings w (UIDMappings l) ''/proc/self/uid_map'' ''linux.uidMappings'')"

definition validateGIDMappings :: "world \<Rightarrow> spec \<Rightarrow> error option" where
  "validateGIDMappings w spec =
     (case Linux spec of
        None \<Rightarrow> None
      | Some l \<Rightarrow> validateIDMappings w (GIDMappings l) ''/proc/self/gid_map'' ''linux.gidMappings'')"

subsection \<open>Declared mounts\<close>

definition mountMatch :: "mount \<Rightarrow> mount \<Rightarrow> error option" where
  "mountMatch specMount sysMount =
     (if filepath_Clean (Destination specMount) \<noteq> Destination sysMount then
        Some (Errorf ''mount destination expected: %v, actual: %v''
                [AStr (Destination specMount), AStr (Destination sysMount)])
      else if mnt_Type specMount \<noteq> mnt_Type sysMount then
        Some (Errorf ''mount %v type expected: %v, actual: %v''
                [AStr (Destination specMount), AStr (mnt_Type specMount),
                 AStr (mnt_Type sysMount)])
      else if filepath_Clean (mnt_Source specMount) \<noteq> mnt_Source sysMount then
        Some (Errorf ''mount %v source expected: %v, actual: %v''
                [AStr (Destination specMount), AStr (mnt_Source specMount),
                 AStr (mnt_Source sysMount)])
      else None)"

fun found_loop :: "mount \<Rightarrow> mount list \<Rightarrow> bool" where
  "found_loop specMount [] = False"
| "found_loop specMount (sysMount # rest) =
     (if mountMatch specMount sysMount = None then True else found_loop specMount rest)"

fun mountsExist_loop :: "(string \<Rightarrow> mount list) \<Rightarrow> mount list \<Rightarrow> error option" where
  "mountsExist_loop mountsMap [] = None"
| "mountsExist_loop mountsMap (specMount # rest) =
     (if mnt_Type specMount = ''bind'' \<or> mnt_Type specMount = ''rbind'' then
        mountsExist_loop mountsMap rest
      else if \<not> found_loop specMount (mountsMap (filepath_Clean (Destination specMount))) then
        Some (Errorf ''Expected mount %v does not exist'' [AMount specMount])
      else mountsExist_loop mountsMap rest)"

definition validateMountsExist :: "world \<Rightarrow> spec \<Rightarrow> error option" where
  "validateMountsExist w spec =
     (let (mountInfos, err) = mount_GetMounts w
      in case err of
           Some e \<Rightarrow> Some e
         | None \<Rightarrow>
             let mountsMap =
                   fold (\<lambda>mountInfo m.
                           m(Mountpoint mountInfo :=
                               m (Mountpoint mountInfo) @
                               [\<lparr>Destination = Mountpoint mountInfo,
                                 mnt_Type = Fstype mountInfo,
                                 mnt_Source = Source mountInfo,
                                 Options = []\<rparr>]))
                        mountInfos (\<lambda>_. [])
             in mountsExist_loop mountsMap (Mounts spec))"

section \<open>The runner\<close>

text \<open>
  A check is a Go function from the configuration to an error. What it reads besides
  is explicit here: the live system, the order of the map walks, and the state it may
  change.
\<close>

record validation =
  test :: "world \<Rightarrow> range_order \<Rightarrow> spec \<Rightarrow> state \<Rightarrow> (error option \<times> state) res"
  description :: string

definition pure_check ::
  "(world \<Rightarrow> spec \<Rightarrow> error option) \<Rightarrow>
   world \<Rightarrow> range_order \<Rightarrow> spec \<Rightarrow> state \<Rightarrow> (error option \<times> state) res" where
  "pure_check f w order spec st = Ret (f w spec, st)"

definition panicking_check ::
  "(world \<Rightarrow> spec \<Rightarrow> error option res) \<Rightarrow>
   world \<Rightarrow> range_order \<Rightarrow> spec \<Rightarrow> state \<Rightarrow> (error option \<times> state) res" where
  "panicking_check f w order spec st =
     (case f w spec of Panic pn \<Rightarrow> Panic pn | Ret e \<Rightarrow> Ret (e, st))"

definition ranging_check ::
  "(world \<Rightarrow> range_order \<Rightarrow> spec \<Rightarrow> error option) \<Rightarrow>
   world \<Rightarrow> range_order \<Rightarrow> spec \<Rightarrow> state \<Rightarrow> (error option \<times> state) res" where
  "ranging_check f w order spec st = Ret (f w order spec, st)"

definition probing_check ::
  "(world \<Rightarrow> spec \<Rightarrow> state \<Rightarrow> error option \<times> state) \<Rightarrow>
   world \<Rightarrow> range_order \<Rightarrow> spec \<Rightarrow> state \<Rightarrow> (error option \<times> state) res" where
  "probing_check f w order spec st = Ret (f w spec st)"

definition defaultValidations :: "validation list" where
  "defaultValidations =
     [\<lparr>test = probing_check validateRootFS, description = ''root filesystem''\<rparr>,
      \<lparr>test = pure_check validateHostname, description = ''hostname''\<rparr>,
      \<lparr>test = pure_check validateMountsExist, description = ''mounts''\<rparr>]"

definition linuxValidations :: "validation list" where
  "linuxValidations =
     [\<lparr>test = panicking_check validateCapabilities, description = ''capabilities''\<rparr>,
      \<lparr>test = ranging_check validateDefaultSymlinks, description = ''default symlinks''\<rparr>,
      \<lparr>test = ranging_check validateDefaultFS, description = ''default file system''\<rparr>,
      \<lparr>test = (\<lambda>w order. validateDefaultDevices w), description = ''default devices''\<rparr>,
      \<lparr>test = pure_check validateLinuxDevices, description = ''linux devices''\<rparr>,
      \<lparr>test = panicking_check validateLinuxProcess, description = ''linux process''\<rparr>,
      \<lparr>test = pure_check validateMaskedPaths, description = ''masked paths''\<rparr>,
      \<lparr>test = pure_check validateOOMScoreAdj, description = ''oom score adj''\<rparr>,
      \<lparr>test = probing_check validateROPaths, description = ''read only paths''\<rparr>,
      \<lparr>test = panicking_check validateRlimits, description = ''rlimits''\<rparr>,
      \<lparr>test = ranging_check validateSysctls, description = ''sysctls''\<rparr>,
      \<lparr>test = pure_check validateUIDMappings, description = ''uid mappings''\<rparr>,
      \<lparr>test = pure_check validateGIDMappings, description = ''gid mappings''\<rparr>]"

definition loadSpecConfig :: "world \<Rightarrow> string \<Rightarrow> error + spec" where
  "loadSpecConfig w path =
     (let configPath = filepath_Join [path, specConfig]
      in case open_config w configPath of
           Inl err \<Rightarrow>
             if os_IsNotExist w err then Inl (Errorf ''%s not found'' [AStr specConfig])
             else json_Decode w None
         | Inr cf \<Rightarrow> json_Decode w (Some cf))"

text \<open>
  What \<^verbatim>\<open>run\<close> returns: a plain error of one of its early exits, or the
  \<^verbatim>\<open>*multierror.Error\<close> built in the loops. No check returns a \<^verbatim>\<open>*multierror.Error\<close>,
  so \<^verbatim>\<open>multierror.Append\<close> adds its argument as one entry.
\<close>

datatype run_error = Plain error | Multi "error list"

fun multierror_Append :: "run_error option \<Rightarrow> error \<Rightarrow> run_error" where
  "multierror_Append None err = Multi [err]"
| "multierror_Append (Some (Multi errs)) err = Multi (errs @ [err])"
| "multierror_Append (Some (Plain e)) err = Multi [e, err]"

text \<open>The type assertion and comparison \<^verbatim>\<open>e, ok := err.(*rfc2119.Error); ok && e.Level < complianceLevel\<close>.\<close>

fun below_level :: "level \<Rightarrow> error \<Rightarrow> bool" where
  "below_level complianceLevel (Rfc2119Error lv msg) = (lv < complianceLevel)"
| "below_level complianceLevel _ = False"

text \<open>
  One \<^verbatim>\<open>for _, v := range ...\<close> loop of \<^verbatim>\<open>run\<close>. It carries the lines written by
  \<^verbatim>\<open>t.Ok\<close> (pass or fail, and the description), \<^verbatim>\<open>validationErrors\<close> and the state.
\<close>

type_synonym tap = "(bool \<times> string) list"

fun run_loop ::
  "world \<Rightarrow> range_order \<Rightarrow> level \<Rightarrow> spec \<Rightarrow> validation list \<Rightarrow>
   tap \<times> run_error option \<times> state \<Rightarrow> (tap \<times> run_error option \<times> state) res" where
  "run_loop w order complianceLevel spec [] acc = Ret acc"
| "run_loop w order complianceLevel spec (v # vs) (t, validationErrors, st) =
     (case test v w order spec st of
        Panic pn \<Rightarrow> Panic pn
      | Ret (err, st') \<Rightarrow>
          let t' = t @ [(err = None, description v)]
          in (case err of
                None \<Rightarrow> run_loop w order complianceLevel spec vs (t', validationErrors, st')
              | Some e \<Rightarrow>
                  if below_level complianceLevel e then
                    run_loop w order complianceLevel spec vs (t', validationErrors, st')
                  else
                    run_loop w order complianceLevel spec vs
                      (t', Some (multierror_Append validationErrors e), st')))"

record cli_Context =
  log_level :: string
  ctx_path :: string
  compliance_level :: string

definition complianceLevel_of :: "world \<Rightarrow> cli_Context \<Rightarrow> level" where
  "complianceLevel_of w ctx =
     (case ParseLevel w (compliance_level ctx) of
        Inl err \<Rightarrow> Must w
      | Inr lv \<Rightarrow> lv)"

definition run ::
  "world \<Rightarrow> range_order \<Rightarrow> cli_Context \<Rightarrow> state \<Rightarrow> (tap \<times> run_error option \<times> state) res" where
  "run w order ctx st =
     (case logrus_ParseLevel w (log_level ctx) of
        Inl err \<Rightarrow> Ret ([], Some (Plain err), st)
      | Inr logLevel \<Rightarrow>
     (case loadSpecConfig w (ctx_path ctx) of
        Inl err \<Rightarrow> Ret ([], Some (Plain err), st)
      | Inr spec \<Rightarrow>
          let platform = GOOS w;
              complianceLevel = complianceLevel_of w ctx
          in (case run_loop w order complianceLevel spec defaultValidations ([], None, st) of
                Panic pn \<Rightarrow> Panic pn
              | Ret acc \<Rightarrow>
                  if platform = ''linux'' then
                    run_loop w order complianceLevel spec linuxValidations acc
                  else Ret acc)))"

section \<open>Scenarios\<close>

text \<open>
  Two declared mounts, \<^verbatim>\<open>/a\<close> before \<^verbatim>\<open>/a/b\<close>, and a live mount table that lists
  \<^verbatim>\<open>/a\<close> and then \<^verbatim>\<open>/a/b\<close>.
\<close>

definition nested_mounts_config :: spec where
  "nested_mounts_config =
     \<lparr>Version = ''1.0.0'',
      Process = None,
      Root = \<lparr>root_Path = ''rootfs'', Readonly = False\<rparr>,
      Hostname = [],
      Mounts = [\<lparr>Destination = ''/a'', mnt_Type = ''tmpfs'', mnt_Source = ''tmpfs'',
                 Options = []\<rparr>,
                \<lparr>Destination = ''/a/b'', mnt_Type = ''tmpfs'', mnt_Source = ''tmpfs'',
                 Options = []\<rparr>],
      Linux = None\<rparr>"

definition nested_mounts_table :: "mountinfo list" where
  "nested_mounts_table =
     [\<lparr>Mountpoint = ''/a'', Fstype = ''tmpfs'', Source = ''tmpfs''\<rparr>,
      \<lparr>Mountpoint = ''/a/b'', Fstype = ''tmpfs'', Source = ''tmpfs''\<rparr>]"

section \<open>A sample system\<close>

text \<open>
  A live system and a configuration to run the checks on. Its parameters are small
  stand-ins: three capabilities, one resource limit, decimal numbers.
\<close>

definition digit_of :: "char \<Rightarrow> nat option" where
  "digit_of c = map_of (zip ''0123456789'' [0, 1, 2, 3, 4, 5, 6, 7, 8, 9]) c"

fun decimal_loop :: "string \<Rightarrow> nat \<Rightarrow> nat option" where
  "decimal_loop [] acc = Some acc"
| "decimal_loop (c # cs) acc =
     (case digit_of c of None \<Rightarrow> None | Some d \<Rightarrow> decimal_loop cs (10 * acc + d))"

definition decimal :: "string \<Rightarrow> nat option" where
  "decimal s = (if s = [] then None else decimal_loop s 0)"

definition ENOENT :: error where "ENOENT = SysError ''no such file or directory''"
definition EROFS :: error where "EROFS = SysError ''read-only file system''"

definition char_device :: fileinfo where
  "char_device =
     \<lparr>fi_Mode = 0x42001B6,
      fi_Sys = Some \<lparr>st_Mode = 0x21B6, st_Rdev = 0x103, st_Uid = 0, st_Gid = 0\<rparr>\<rparr>"

definition symlink_info :: fileinfo where
  "symlink_info =
     \<lparr>fi_Mode = 0x80001FF,
      fi_Sys = Some \<lparr>st_Mode = 0xA1FF, st_Rdev = 0, st_Uid = 0, st_Gid = 0\<rparr>\<rparr>"

definition sample_mounts :: "mountinfo list" where
  "sample_mounts =
     [\<lparr>Mountpoint = ''/proc'', Fstype = ''proc'', Source = ''proc''\<rparr>,
      \<lparr>Mountpoint = ''/sys'', Fstype = ''sysfs'', Source = ''sysfs''\<rparr>,
      \<lparr>Mountpoint = ''/dev/pts'', Fstype = ''devpts'', Source = ''devpts''\<rparr>,
      \<lparr>Mountpoint = ''/dev/shm'', Fstype = ''tmpfs'', Source = ''shm''\<rparr>]"

definition sample_system :: "spec \<Rightarrow> world" where
  "sample_system config =
     \<lparr>LastCap = 1,
      capability_List = [0, 1, 2],
      cap_String = (\<lambda>c. if c = 0 then ''chown'' else if c = 1 then ''dac_override''
                          else ''dac_read_search''),
      strToRlimit = (\<lambda>s. if s = ''RLIMIT_NOFILE'' then Inr 7
                           else Inl (Errorf ''unknown rlimit type %q'' [AStr s])),
      ParseLevel = (\<lambda>s. if s = ''may'' then Inr 0 else if s = ''should'' then Inr 2
                          else if s = ''must'' then Inr 6
                          else Inl (Errorf ''%q is not a valid compliance level'' [AStr s])),
      Must = 6,
      NewError = (\<lambda>code msg version. Rfc2119Error 2 msg),
      logrus_ParseLevel = (\<lambda>s. if s = ''error'' then Inr 2
                                 else Inl (Errorf ''not a valid logrus Level: %q'' [AStr s])),
      strconv_Atoi = (\<lambda>s. case decimal s of None \<Rightarrow> Inl (SysError ''invalid syntax'')
                                            | Some n \<Rightarrow> Inr (int n)),
      strconv_ParseUint = (\<lambda>s. case decimal s of None \<Rightarrow> Inl (SysError ''invalid syntax'')
                                            | Some n \<Rightarrow> if n < 2 ^ 32 then Inr (of_nat n)
                                                        else Inl (SysError ''value out of range'')),
      os_IsNotExist = (\<lambda>e. e = ENOENT),
      GOOS = ''linux'',
      os_Getwd = Inr ''/'',
      os_Getenv = (\<lambda>k. if k = ''PATH'' then ''/bin'' else []),
      os_Getuid = 0,
      os_Getgid = 0,
      os_Getgroups = Inr [0],
      os_Hostname = Inr ''box'',
      ioutil_ReadFile = (\<lambda>p. if p = ''/proc/self/cmdline'' then Inr [CHR ''s'', CHR ''h'', CHR 0x00]
                               else if p = ''/proc/sys/net/ipv4/ip_forward'' then Inr [CHR ''1'', CHR 0x0A]
                               else Inl ENOENT),
      prctl_GetNoNewPrivs = (0, 0),
      capability_NewPid = Inr (\<lambda>t c. c = 0),
      syscall_Getrlimit = (\<lambda>r. Inr (1024, 4096)),
      mount_GetMounts = (sample_mounts, None),
      os_Stat = (\<lambda>p. if p \<in> set (''/dev/console'' # defaultDevices_init) then Inr char_device
                       else Inl ENOENT),
      os_Lstat = (\<lambda>p. if p \<in> set (map fst defaultSymlinks) then Inr symlink_info
                       else Inl ENOENT),
      os_Readlink = (\<lambda>p. case map_of defaultSymlinks p of None \<Rightarrow> Inl ENOENT
                                                     | Some d \<Rightarrow> Inr d),
      open_scan = (\<lambda>p. if p = ''/proc/self/uid_map'' \<or> p = ''/proc/self/gid_map''
                          then Inr [''         0          0 4294967295'']
                        else if p = ''/proc/self/oom_score_adj'' then Inr [''0'']
                        else Inl ENOENT),
      open_read1 = (\<lambda>p. if p = ''/proc/kcore'' then Inr (Some io_EOF) else Inl ENOENT),
      open_config = (\<lambda>p. if p = ''config.json'' then Inr ''{}'' else Inl ENOENT),
      json_Decode = (\<lambda>f. case f of None \<Rightarrow> Inl (SysError ''invalid argument'')
                                  | Some _ \<Rightarrow> Inr config),
      create_err = (\<lambda>d. if d = ''/'' \<or> d = ''/proc/sys'' then Some EROFS else None),
      os_TempDir = ''/tmp'',
      nextRandom = (\<lambda>fs. ''123'')\<rparr>"

definition sample_process :: process where
  "sample_process =
     \<lparr>Terminal = True,
      User = \<lparr>UID = 0, GID = 0, AdditionalGids = [0]\<rparr>,
      Args = [''sh''],
      Env = [''PATH=/bin''],
      Cwd = ''/'',
      Capabilities = Some \<lparr>Bounding = [''CAP_CHOWN''], Effective = [''CAP_CHOWN''],
                            Inheritable = [''CAP_CHOWN''], Permitted = [''CAP_CHOWN''],
                            Ambient = [''CAP_CHOWN'']\<rparr>,
      Rlimits = [\<lparr>rl_Type = ''RLIMIT_NOFILE'', Hard = 4096, Soft = 1024\<rparr>],
      NoNewPrivileges = False,
      OOMScoreAdj = Some 0\<rparr>"

definition sample_linux :: linux where
  "sample_linux =
     \<lparr>UIDMappings = [\<lparr>HostID = 0, ContainerID = 0, Size = 4294967295\<rparr>],
      GIDMappings = [],
      Sysctl = [(''net.ipv4.ip_forward'', ''1'')],
      Devices = [],
      MaskedPaths = [''/proc/kcore''],
      ReadonlyPaths = [''/proc/sys'']\<rparr>"

definition sample_config :: spec where
  "sample_config =
     \<lparr>Version = ''1.0.0'',
      Process = Some sample_process,
      Root = \<lparr>root_Path = ''rootfs'', Readonly = True\<rparr>,
      Hostname = ''box'',
      Mounts = [\<lparr>Destination = ''/proc'', mnt_Type = ''proc'', mnt_Source = ''proc'', Options = []\<rparr>],
      Linux = Some sample_linux\<rparr>"

definition sample_context :: cli_Context where
  "sample_context = \<lparr>log_level = ''error'', ctx_path = ''.'', compliance_level = ''must''\<rparr>"

definition initial_state :: state where
  "initial_state = \<lparr>defaultDevices = defaultDevices_init, files = []\<rparr>"

text \<open>Two mapping records are the same triple when their three fields agree.\<close>

definition same_triple :: "idmapping \<Rightarrow> idmapping \<Rightarrow> bool" where
  "same_triple v cv =
     (HostID v = HostID cv \<and> ContainerID v = ContainerID cv \<and> Size v = Size cv)"

section \<open>Capabilities: what the check is meant to decide\<close>

text \<open>
  The name of a set as the messages write it; whether a capability is declared for a
  set (its key \<^verbatim>\<open>CAP_\<close> and the upper-case name is in the declared list of the set); the
  failure reported for a set and a capability, which says whether the capability was
  expected and missing or present and not declared.
\<close>

definition capset_name :: "CapType \<Rightarrow> string" where
  "capset_name t =
     (case t of BOUNDING \<Rightarrow> ''bounding'' | EFFECTIVE \<Rightarrow> ''effective''
      | INHERITABLE \<Rightarrow> ''inheritable'' | PERMITTED \<Rightarrow> ''permitted'' | AMBIENT \<Rightarrow> ''ambient'')"

definition declared_cap :: "world \<Rightarrow> capabilities option \<Rightarrow> CapType \<Rightarrow> int \<Rightarrow> bool" where
  "declared_cap w cs t cap = (capKey_of w cap \<in> set (expectedCaps cs t))"

definition cap_failure :: "world \<Rightarrow> bool \<Rightarrow> CapType \<Rightarrow> int \<Rightarrow> error" where
  "cap_failure w declared t cap =
     (if declared
      then Errorf (''Expected '' @ capset_name t @ '' capability %v not set for process'')
             [AStr (cap_String w cap)]
      else Errorf (''Unexpected '' @ capset_name t @ '' capability %v set for process'')
             [AStr (cap_String w cap)])"

definition cap_differs ::
  "world \<Rightarrow> capabilities option \<Rightarrow> (CapType \<Rightarrow> int \<Rightarrow> bool) \<Rightarrow> CapType \<Rightarrow> int \<Rightarrow> bool" where
  "cap_differs w cs processCaps t cap = (processCaps t cap \<noteq> declared_cap w cs t cap)"

section \<open>More scenarios\<close>

text \<open>
  Variants of the sample configuration: one environment entry \<^verbatim>\<open>FOO=bar\<close>; a read-only
  path \<^verbatim>\<open>/a\<close> that is writable in the sample system; a device of type \<^verbatim>\<open>u\<close> and one of
  type \<^verbatim>\<open>c\<close> at \<^verbatim>\<open>/dev/null\<close>, which is a character device 1:3 there.
\<close>

definition foo_config :: spec where
  "foo_config = sample_config\<lparr>Process := Some (sample_process\<lparr>Env := [''FOO=bar'']\<rparr>)\<rparr>"

definition writable_path_config :: spec where
  "writable_path_config = sample_config\<lparr>Linux := Some (sample_linux\<lparr>ReadonlyPaths := [''/a'']\<rparr>)\<rparr>"

definition unbuffered_device_config :: spec where
  "unbuffered_device_config =
     sample_config\<lparr>Linux := Some (sample_linux\<lparr>Devices :=
       [\<lparr>dev_Path = ''/dev/null'', dev_Type = ''u'', Major = 1, Minor = 3,
         FileMode = None, dev_UID = None, dev_GID = None\<rparr>]\<rparr>)\<rparr>"

definition character_device_config :: spec where
  "character_device_config =
     sample_config\<lparr>Linux := Some (sample_linux\<lparr>Devices :=
       [\<lparr>dev_Path = ''/dev/null'', dev_Type = ''c'', Major = 1, Minor = 3,
         FileMode = None, dev_UID = None, dev_GID = None\<rparr>]\<rparr>)\<rparr>"

(* THEOREMS *)

section \<open>Mount order: the nested scenario\<close>

lemma isParent_descendant_first: "isParent ''/a/b'' ''/a'' = Panic IndexOutOfRange"
  by (simp add: isParent_def filepath_ToSlash_def)

lemma isParent_ancestor_first: "isParent ''/a'' ''/a/b'' = Ret True"
  by (simp add: isParent_def filepath_ToSlash_def)

text \<open>
  C2. With \<^verbatim>\<open>/a\<close> declared before \<^verbatim>\<open>/a/b\<close> and a live table listing \<^verbatim>\<open>/a\<close> and then
  \<^verbatim>\<open>/a/b\<close>, the mount order check does not return success: deciding whether \<^verbatim>\<open>/a\<close> is
  a mountpoint asks \<^verbatim>\<open>isParent\<close> whether the later record \<^verbatim>\<open>/a/b\<close> is a parent of
  \<^verbatim>\<open>/a\<close>, and that call reads \<^verbatim>\<open>cparts[2]\<close> of a two-element slice and panics.
\<close>

theorem validateMountOrder_nested_panics:
  "validateMountOrder ''linux'' (nested_mounts_table, None) nested_mounts_config
     = Panic IndexOutOfRange"
  by (simp add: validateMountOrder_def nested_mounts_table_def nested_mounts_config_def
        findNestedPaths_def isMountPoint_def isParent_def filepath_Clean_def
        filepath_ToSlash_def)

section \<open>Checks that need the Linux section\<close>

text \<open>
  C10. When the configuration has no Linux section, the checks of declared devices,
  kernel parameters, masked paths, read-only paths and uid and gid mappings return
  success, whatever the live system is, and leave the state as it was.
\<close>

theorem linux_checks_skip_without_linux_section:
  assumes "Linux spec = None"
  shows "validateLinuxDevices w spec = None \<and>
         validateSysctls w order spec = None \<and>
         validateMaskedPaths w spec = None \<and>
         validateROPaths w spec st = (None, st) \<and>
         validateUIDMappings w spec = None \<and>
         validateGIDMappings w spec = None"
  using assms
  by (simp add: validateLinuxDevices_def validateSysctls_def validateMaskedPaths_def
        validateROPaths_def validateUIDMappings_def validateGIDMappings_def)

theorem linux_checks_skip_without_linux_section_witness:
  "Linux nested_mounts_config = None \<and>
   validateLinuxDevices (sample_system nested_mounts_config) nested_mounts_config = None \<and>
   validateSysctls (sample_system nested_mounts_config) (\<lambda>m. m) nested_mounts_config = None \<and>
   validateMaskedPaths (sample_system nested_mounts_config) nested_mounts_config = None \<and>
   validateROPaths (sample_system nested_mounts_config) nested_mounts_config initial_state
     = (None, initial_state) \<and>
   validateUIDMappings (sample_system nested_mounts_config) nested_mounts_config = None \<and>
   validateGIDMappings (sample_system nested_mounts_config) nested_mounts_config = None"
proof -
  have h: "Linux nested_mounts_config = None"
    by (simp add: nested_mounts_config_def)
  show ?thesis
    using h linux_checks_skip_without_linux_section
            [OF h, of "sample_system nested_mounts_config" "\<lambda>m. m" initial_state]
    by simp
qed

section \<open>ID mappings\<close>

lemma exist_loop_iff: "exist_loop v idMaps = list_ex (same_triple v) idMaps"
  by (induction idMaps) (auto simp: same_triple_def)

lemma mappings_loop_iff:
  "(mappings_loop property idMaps mappings \<noteq> None) =
     list_ex (\<lambda>v. \<not> list_ex (same_triple v) idMaps) mappings"
  by (induction mappings) (auto simp: exist_loop_iff)

lemma sample_uid_map:
  "getIDMappings (sample_system sample_config) ''/proc/self/uid_map''
     = Inr [\<lparr>HostID = 0, ContainerID = 0, Size = 4294967295\<rparr>]"
  by (simp add: getIDMappings_def strings_Fields_def strings_TrimSpace_def isSpace_def
        decimal_def digit_of_def sample_system_def)

text \<open>
  C5. Let \<open>L\<close> be the live mapping table as \<^verbatim>\<open>getIDMappings\<close> parsed it. An empty declared
  list \<open>M\<close> passes whatever \<open>L\<close> is; a non-empty \<open>M\<close> fails when its length differs from
  that of \<open>L\<close>, and otherwise fails exactly when some declared triple has no identical
  triple anywhere in \<open>L\<close>.
\<close>

theorem validateIDMappings_spec:
  assumes "getIDMappings w path = Inr L"
  shows "(M = [] \<longrightarrow> validateIDMappings w M path property = None) \<and>
         (M \<noteq> [] \<and> length M \<noteq> length L \<longrightarrow>
            validateIDMappings w M path property \<noteq> None) \<and>
         (M \<noteq> [] \<and> length M = length L \<longrightarrow>
            (validateIDMappings w M path property \<noteq> None) =
            list_ex (\<lambda>v. \<not> list_ex (same_triple v) L) M)"
proof (intro conjI impI)
  assume "M = []"
  then show "validateIDMappings w M path property = None"
    using assms by (simp add: validateIDMappings_def)
next
  assume "M \<noteq> [] \<and> length M \<noteq> length L"
  then show "validateIDMappings w M path property \<noteq> None"
    using assms by (simp add: validateIDMappings_def)
next
  assume "M \<noteq> [] \<and> length M = length L"
  then have "validateIDMappings w M path property = mappings_loop property L M"
    using assms by (simp add: validateIDMappings_def)
  then show "(validateIDMappings w M path property \<noteq> None) =
               list_ex (\<lambda>v. \<not> list_ex (same_triple v) L) M"
    by (simp only: mappings_loop_iff)
qed

theorem validateIDMappings_spec_witness:
  "getIDMappings (sample_system sample_config) ''/proc/self/uid_map''
     = Inr [\<lparr>HostID = 0, ContainerID = 0, Size = 4294967295\<rparr>] \<and>
   validateIDMappings (sample_system sample_config) [] ''/proc/self/uid_map''
     ''linux.uidMappings'' = None \<and>
   validateIDMappings (sample_system sample_config)
     [\<lparr>HostID = 0, ContainerID = 0, Size = 4294967295\<rparr>] ''/proc/self/uid_map''
     ''linux.uidMappings'' = None \<and>
   validateIDMappings (sample_system sample_config)
     [\<lparr>HostID = 0, ContainerID = 0, Size = 4294967295\<rparr>,
      \<lparr>HostID = 0, ContainerID = 0, Size = 4294967295\<rparr>] ''/proc/self/uid_map''
     ''linux.uidMappings'' \<noteq> None \<and>
   validateIDMappings (sample_system sample_config)
     [\<lparr>HostID = 1000, ContainerID = 0, Size = 1\<rparr>] ''/proc/self/uid_map''
     ''linux.uidMappings'' \<noteq> None"
proof -
  note h = sample_uid_map
  show ?thesis
    using h
      validateIDMappings_spec [OF h, of "[]" "''linux.uidMappings''"]
      validateIDMappings_spec [OF h, of "[\<lparr>HostID = 0, ContainerID = 0, Size = 4294967295\<rparr>]"
        "''linux.uidMappings''"]
      validateIDMappings_spec [OF h, of "[\<lparr>HostID = 0, ContainerID = 0, Size = 4294967295\<rparr>,
        \<lparr>HostID = 0, ContainerID = 0, Size = 4294967295\<rparr>]" "''linux.uidMappings''"]
      validateIDMappings_spec [OF h, of "[\<lparr>HostID = 1000, ContainerID = 0, Size = 1\<rparr>]"
        "''linux.uidMappings''"]
    by (simp add: same_triple_def)
qed

section \<open>Capabilities\<close>

lemma cap_mismatch_None: "(cap_mismatch a b x y n = None) = (x = y)"
  by (simp add: cap_mismatch_def)

lemma cap_mismatch_Some:
  "cap_mismatch a b x y n = Some e \<Longrightarrow>
     x \<noteq> y \<and> e = (if x then Errorf a [AStr n] else Errorf b [AStr n])"
  by (simp add: cap_mismatch_def split: if_splits)

lemma CapType_all:
  "(\<forall>t. P t) = (P BOUNDING \<and> P EFFECTIVE \<and> P INHERITABLE \<and> P PERMITTED \<and> P AMBIENT)"
  by (metis CapType.exhaust)

lemma orelse_None:
  "((case x of None \<Rightarrow> y | Some e \<Rightarrow> Some e) = None) = (x = None \<and> y = None)"
  by (cases x) auto

lemma orelse_Some:
  "(case x of None \<Rightarrow> y | Some e \<Rightarrow> Some e) = Some e' \<Longrightarrow> x = Some e' \<or> y = Some e'"
  by (cases x) auto

lemma caps_body_None:
  "(caps_body w (expectedCaps cs) processCaps cap = None) =
     (\<forall>t. \<not> cap_differs w cs processCaps t cap)"
  unfolding CapType_all caps_body_def Let_def cap_differs_def declared_cap_def
  by (simp only: orelse_None cap_mismatch_None) blast

lemma cap_mismatch_failure:
  assumes "cap_mismatch (''Expected '' @ capset_name t @ '' capability %v not set for process'')
             (''Unexpected '' @ capset_name t @ '' capability %v set for process'')
             (declared_cap w cs t cap) (processCaps t cap) (cap_String w cap) = Some e"
  shows "cap_differs w cs processCaps t cap \<and> e = cap_failure w (declared_cap w cs t cap) t cap"
  using cap_mismatch_Some [OF assms]
  by (auto simp: cap_differs_def cap_failure_def)

lemma caps_body_Some:
  assumes "caps_body w (expectedCaps cs) processCaps cap = Some e"
  shows "\<exists>t. cap_differs w cs processCaps t cap \<and>
             e = cap_failure w (declared_cap w cs t cap) t cap"
proof -
  from assms consider
      "cap_mismatch ''Expected bounding capability %v not set for process''
         ''Unexpected bounding capability %v set for process''
         (declared_cap w cs BOUNDING cap) (processCaps BOUNDING cap) (cap_String w cap) = Some e"
    | "cap_mismatch ''Expected effective capability %v not set for process''
         ''Unexpected effective capability %v set for process''
         (declared_cap w cs EFFECTIVE cap) (processCaps EFFECTIVE cap) (cap_String w cap) = Some e"
    | "cap_mismatch ''Expected inheritable capability %v not set for process''
         ''Unexpected inheritable capability %v set for process''
         (declared_cap w cs INHERITABLE cap) (processCaps INHERITABLE cap) (cap_String w cap) = Some e"
    | "cap_mismatch ''Expected permitted capability %v not set for process''
         ''Unexpected permitted capability %v set for process''
         (declared_cap w cs PERMITTED cap) (processCaps PERMITTED cap) (cap_String w cap) = Some e"
    | "cap_mismatch ''Expected ambient capability %v not set for process''
         ''Unexpected ambient capability %v set for process''
         (declared_cap w cs AMBIENT cap) (processCaps AMBIENT cap) (cap_String w cap) = Some e"
    unfolding caps_body_def Let_def declared_cap_def
    by (blast dest: orelse_Some)
  then show ?thesis
  proof cases
    case 1
    then show ?thesis
      using cap_mismatch_failure [of BOUNDING w cs cap processCaps e]
      by (auto simp: capset_name_def)
  next
    case 2
    then show ?thesis
      using cap_mismatch_failure [of EFFECTIVE w cs cap processCaps e]
      by (auto simp: capset_name_def)
  next
    case 3
    then show ?thesis
      using cap_mismatch_failure [of INHERITABLE w cs cap processCaps e]
      by (auto simp: capset_name_def)
  next
    case 4
    then show ?thesis
      using cap_mismatch_failure [of PERMITTED w cs cap processCaps e]
      by (auto simp: capset_name_def)
  next
    case 5
    then show ?thesis
      using cap_mismatch_failure [of AMBIENT w cs cap processCaps e]
      by (auto simp: capset_name_def)
  qed
qed

lemma caps_loop_None:
  "(caps_loop w (expectedCaps cs) processCaps caps = None) =
     (\<forall>cap\<in>set caps. cap \<le> LastCap w \<longrightarrow> (\<forall>t. \<not> cap_differs w cs processCaps t cap))"
proof (induction caps)
  case Nil
  then show ?case by simp
next
  case (Cons cap caps)
  show ?case
  proof (cases "caps_body w (expectedCaps cs) processCaps cap")
    case None
    then have "\<forall>t. \<not> cap_differs w cs processCaps t cap"
      using caps_body_None [of w cs processCaps cap] by blast
    with None Cons show ?thesis by auto
  next
    case (Some e)
    then have "\<not> (\<forall>t. \<not> cap_differs w cs processCaps t cap)"
      using caps_body_None [of w cs processCaps cap] by auto
    with Some Cons show ?thesis by auto
  qed
qed

lemma caps_loop_Some:
  "caps_loop w (expectedCaps cs) processCaps caps = Some e \<Longrightarrow>
     \<exists>t. \<exists>cap\<in>set caps. cap \<le> LastCap w \<and> cap_differs w cs processCaps t cap \<and>
         e = cap_failure w (declared_cap w cs t cap) t cap"
proof (induction caps)
  case Nil
  then show ?case by simp
next
  case (Cons cap caps)
  show ?case
  proof (cases "cap > LastCap w")
    case True
    with Cons show ?thesis by auto
  next
    case False
    show ?thesis
    proof (cases "caps_body w (expectedCaps cs) processCaps cap")
      case None
      with False Cons show ?thesis by auto
    next
      case (Some e')
      with False Cons.prems have "e' = e" by simp
      with Some caps_body_Some [of w cs processCaps cap e] False show ?thesis
        by auto
    qed
  qed
qed

lemma sample_NewPid:
  "capability_NewPid (sample_system sample_config) = Inr (\<lambda>t c. c = 0)"
  by (simp add: sample_system_def)

lemma sample_Process: "Process sample_config = Some sample_process"
  by (simp add: sample_config_def)

lemma sample_caps_agree:
  "\<not> (\<exists>t. \<exists>cap\<in>set (capability_List (sample_system sample_config)).
          cap \<le> LastCap (sample_system sample_config) \<and>
          (cap = 0) \<noteq> declared_cap (sample_system sample_config)
                         (Capabilities sample_process) t cap)"
proof -
  have "\<And>t. declared_cap (sample_system sample_config) (Capabilities sample_process) t 0"
    by (case_tac t)
       (simp_all add: declared_cap_def capKey_of_def expectedCaps_def strings_ToUpper_def
          toUpper_def sample_system_def sample_process_def)
  moreover have "\<And>t. \<not> declared_cap (sample_system sample_config) (Capabilities sample_process) t 1"
    by (case_tac t)
       (simp_all add: declared_cap_def capKey_of_def expectedCaps_def strings_ToUpper_def
          toUpper_def sample_system_def sample_process_def)
  ultimately show ?thesis
    by (simp add: sample_system_def)
qed

text \<open>
  C4. When the capability snapshot of the process can be read and the configuration
  has a process section, the capability check fails if and only if, for some set and
  some capability of the library's list up to \<^verbatim>\<open>LastCap\<close>, the live membership differs
  from the declared one (nothing is declared when there is no capabilities object).
  The failure it reports is the one of such a pair: it names the set and the
  capability, and says \<^verbatim>\<open>Expected\<close> for a declared capability that is missing and
  \<^verbatim>\<open>Unexpected\<close> for one that is set and not declared.
\<close>

theorem validateCapabilities_spec:
  assumes "capability_NewPid w = Inr processCaps"
    and "Process spec = Some p"
  shows "\<exists>r. validateCapabilities w spec = Ret r \<and>
           ((r \<noteq> None) =
              (\<exists>t. \<exists>cap\<in>set (capability_List w). cap \<le> LastCap w \<and>
                   processCaps t cap \<noteq> declared_cap w (Capabilities p) t cap)) \<and>
           (\<forall>e. r = Some e \<longrightarrow>
              (\<exists>t. \<exists>cap\<in>set (capability_List w). cap \<le> LastCap w \<and>
                   processCaps t cap \<noteq> declared_cap w (Capabilities p) t cap \<and>
                   e = cap_failure w (declared_cap w (Capabilities p) t cap) t cap))"
proof -
  let ?r = "caps_loop w (expectedCaps (Capabilities p)) processCaps (capability_List w)"
  have ret: "validateCapabilities w spec = Ret ?r"
    using assms by (simp add: validateCapabilities_def)
  have iff: "(?r \<noteq> None) =
      (\<exists>t. \<exists>cap\<in>set (capability_List w). cap \<le> LastCap w \<and>
           processCaps t cap \<noteq> declared_cap w (Capabilities p) t cap)"
    unfolding caps_loop_None cap_differs_def by blast
  have msg: "\<forall>e. ?r = Some e \<longrightarrow>
      (\<exists>t. \<exists>cap\<in>set (capability_List w). cap \<le> LastCap w \<and>
           processCaps t cap \<noteq> declared_cap w (Capabilities p) t cap \<and>
           e = cap_failure w (declared_cap w (Capabilities p) t cap) t cap)"
    using caps_loop_Some [of w "Capabilities p" processCaps "capability_List w"]
    unfolding cap_differs_def by blast
  show ?thesis
    by (rule exI [of _ ?r]) (intro conjI ret iff msg)
qed

theorem validateCapabilities_spec_witness:
  "capability_NewPid (sample_system sample_config) = Inr (\<lambda>t c. c = 0) \<and>
   Process sample_config = Some sample_process \<and>
   validateCapabilities (sample_system sample_config) sample_config = Ret None"
proof -
  from validateCapabilities_spec [OF sample_NewPid sample_Process]
  obtain r where r: "validateCapabilities (sample_system sample_config) sample_config = Ret r"
    and iff: "(r \<noteq> None) =
       (\<exists>t. \<exists>cap\<in>set (capability_List (sample_system sample_config)).
          cap \<le> LastCap (sample_system sample_config) \<and>
          (cap = 0) \<noteq> declared_cap (sample_system sample_config)
                         (Capabilities sample_process) t cap)"
    by blast
  from iff sample_caps_agree have "r = None" by blast
  with r sample_NewPid sample_Process show ?thesis by simp
qed

section \<open>Environment of the process\<close>

lemmas sample_defs = sample_system_def sample_config_def sample_process_def sample_linux_def
  sample_context_def initial_state_def sample_mounts_def char_device_def symlink_info_def
  ENOENT_def EROFS_def

lemma env_value_cut_at_second_separator:
  "env_loop (sample_system sample_config\<lparr>os_Getenv := (\<lambda>k. ''a=b'')\<rparr>) [''FOO=a=b'']
     = Ret (Some (Errorf ''Env %v expected: %v, actual: %v''
                    [AStr ''FOO'', AStr ''a'', AStr ''a=b'']))"
  by (simp add: sample_system_def)

text \<open>
  C3. With the declared entry \<^verbatim>\<open>FOO=bar\<close> and no live variable \<^verbatim>\<open>FOO\<close>,
  \<^verbatim>\<open>validateGeneralProcess\<close> finds the mismatch (expected \<^verbatim>\<open>bar\<close>, actual empty), but the
  check the runner calls, \<^verbatim>\<open>validateLinuxProcess\<close>, drops what it returns and passes.
\<close>

theorem validateLinuxProcess_drops_env_mismatch:
  "validateGeneralProcess (sample_system foo_config) foo_config
     = Ret (Some (Errorf ''Env %v expected: %v, actual: %v''
                    [AStr ''FOO'', AStr ''bar'', AStr []])) \<and>
   validateLinuxProcess (sample_system foo_config) foo_config = Ret None"
  by (simp add: validateLinuxProcess_def validateGeneralProcess_def check_cwd_def
        bytes_Trim_def foo_config_def sample_defs)

section \<open>Write probe\<close>

lemma testWriteAccess_removes_at_root:
  "testWriteAccess (sample_system sample_config\<lparr>create_err := (\<lambda>d. None)\<rparr>) ''/'' initial_state
     = (None, initial_state)"
  by (simp add: Let_def testWriteAccess_def ioutil_TempFile_def os_RemoveAll_def
        below_path_def filepath_Join_def filepath_Clean_def sample_defs)

text \<open>
  C7. The write probe on the writable directory \<^verbatim>\<open>/a\<close> returns with the temporary
  file \<^verbatim>\<open>/a/Test123\<close> still there: the name of the file already holds the directory,
  so the path removed is \<^verbatim>\<open>/a/a/Test123\<close>. The read-only paths check returns with the
  file left behind too.
\<close>

theorem testWriteAccess_leaves_file:
  "testWriteAccess (sample_system writable_path_config) ''/a'' initial_state
     = (None, initial_state\<lparr>files := [''/a/Test123'']\<rparr>) \<and>
   validateROPaths (sample_system writable_path_config) writable_path_config initial_state
     = (Some (Errorf ''%v should be readonly'' [AStr ''/a'']),
        initial_state\<lparr>files := [''/a/Test123'']\<rparr>)"
  by (simp add: Let_def validateROPaths_def testWriteAccess_def ioutil_TempFile_def os_RemoveAll_def
        below_path_def filepath_Join_def filepath_Clean_def writable_path_config_def
        sample_defs)

section \<open>Declared devices\<close>

lemma devType_of_not_unbuffered: "devType_of m \<noteq> ''u''"
  by (simp add: devType_of_def Let_def)

lemma unbuffered_device_never_passes:
  "dev_Type device = ''u'' \<Longrightarrow> device_body w device \<noteq> None"
  by (simp add: device_body_def Let_def devType_of_not_unbuffered split: sum.splits option.splits)

lemma validateLinuxDevices_accepts_character:
  "validateLinuxDevices (sample_system character_device_config) character_device_config = None"
  by (simp add: validateLinuxDevices_def device_body_def devType_of_def S_IFMT_def S_IFCHR_def
        S_IFBLK_def S_IFIFO_def dev_major_def dev_minor_def character_device_config_def
        sample_defs defaultDevices_init_def)

text \<open>
  C8. A declared device of type \<^verbatim>\<open>u\<close> whose node is the character device 1:3 is
  rejected with expected type \<^verbatim>\<open>u\<close>, actual \<^verbatim>\<open>c\<close>: the observed type is never \<^verbatim>\<open>u\<close>,
  so the first disjunct of the type test already fails it.
\<close>

theorem validateLinuxDevices_rejects_unbuffered:
  "validateLinuxDevices (sample_system unbuffered_device_config) unbuffered_device_config
     = Some (Errorf ''device %v expected type is %v, actual is %v''
               [AStr ''/dev/null'', AStr ''u'', AStr ''c''])"
  by (simp add: validateLinuxDevices_def device_body_def devType_of_def S_IFMT_def S_IFCHR_def
        S_IFBLK_def S_IFIFO_def unbuffered_device_config_def sample_defs defaultDevices_init_def)

end
